theory Spec2Isabelle
  imports Complex_Main "HOL-Library.Multiset"
begin

section \<open>JavaScript numbers\<close>

text \<open>
  The calculator of \<^verbatim>\<open>src/App.jsx\<close> computes on JavaScript numbers. A number is
  modelled as a finite value, one of the two infinities, or NaN. Arithmetic on
  finite values is exact (a real number): the rounding of binary64, overflow and
  underflow are not part of this model. The two zeros are identified; the only
  operation that tells them apart is a division by zero, which takes the divisor to
  be \<open>+0\<close> here and which no guarded division of the program reaches.
  The non-finite values follow IEEE 754, as JavaScript does.
\<close>

datatype number = Fin real | PInf | NInf | NaN

fun is_fin :: "number \<Rightarrow> bool" where
  "is_fin (Fin _) = True"
| "is_fin _ = False"

text \<open>The sign of a number that is not NaN, and the infinity of a given sign
  (NaN for sign zero: \<open>0 * Infinity\<close>, \<open>0 / 0\<close>).\<close>

fun sg :: "number \<Rightarrow> real" where
  "sg (Fin a) = sgn a"
| "sg PInf = 1"
| "sg NInf = - 1"
| "sg NaN = 0"

definition signed_inf :: "real \<Rightarrow> number" where
  "signed_inf s = (if s > 0 then PInf else if s < 0 then NInf else NaN)"

instantiation number :: "{plus, minus, uminus, times, inverse}"
begin

fun plus_number :: "number \<Rightarrow> number \<Rightarrow> number" where
  "Fin a + Fin b = Fin (a + b)"
| "NaN + _ = NaN"
| "_ + NaN = NaN"
| "PInf + NInf = NaN"
| "NInf + PInf = NaN"
| "PInf + _ = PInf"
| "_ + PInf = PInf"
| "NInf + _ = NInf"
| "_ + NInf = NInf"

fun uminus_number :: "number \<Rightarrow> number" where
  "- Fin a = Fin (- a)"
| "- PInf = NInf"
| "- NInf = PInf"
| "- NaN = NaN"

definition minus_number :: "number \<Rightarrow> number \<Rightarrow> number" where
  "x - y = x + (- (y::number))"

fun times_number :: "number \<Rightarrow> number \<Rightarrow> number" where
  "Fin a * Fin b = Fin (a * b)"
| "NaN * _ = NaN"
| "_ * NaN = NaN"
| "x * y = signed_inf (sg x * sg y)"

fun divide_number :: "number \<Rightarrow> number \<Rightarrow> number" where
  "divide_number (Fin a) (Fin b) = (if b = 0 then signed_inf (sgn a) else Fin (a / b))"
| "divide_number NaN _ = NaN"
| "divide_number _ NaN = NaN"
| "divide_number (Fin a) _ = Fin 0"
| "divide_number x (Fin b) = signed_inf (sg x * (if b < 0 then - 1 else 1))"
| "divide_number _ _ = NaN"

definition inverse_number :: "number \<Rightarrow> number" where
  "inverse_number x = divide (Fin 1) (x::number)"

instance ..

end

text \<open>\<^verbatim>\<open>a > b\<close> and \<^verbatim>\<open>a <= b\<close>: false as soon as one side is NaN.\<close>

fun js_gt :: "number \<Rightarrow> number \<Rightarrow> bool" where
  "js_gt (Fin a) (Fin b) = (a > b)"
| "js_gt NaN _ = False"
| "js_gt _ NaN = False"
| "js_gt _ PInf = False"
| "js_gt PInf _ = True"
| "js_gt NInf _ = False"
| "js_gt _ NInf = True"

fun js_le :: "number \<Rightarrow> number \<Rightarrow> bool" where
  "js_le NaN _ = False"
| "js_le _ NaN = False"
| "js_le a b = (\<not> js_gt a b)"

text \<open>\<^verbatim>\<open>ToBoolean\<close> of a number: false for zero and for NaN.\<close>

fun truthy :: "number \<Rightarrow> bool" where
  "truthy (Fin a) = (a \<noteq> 0)"
| "truthy NaN = False"
| "truthy _ = True"

text \<open>\<^verbatim>\<open>Math.log\<close>.\<close>

fun Math_log :: "number \<Rightarrow> number" where
  "Math_log (Fin a) = (if a > 0 then Fin (ln a) else if a = 0 then NInf else NaN)"
| "Math_log PInf = PInf"
| "Math_log _ = NaN"

section \<open>Strings\<close>

text \<open>
  A string is a list of code units; the model covers the code units below 256.
  The white space of \<^verbatim>\<open>String.prototype.trim\<close> and of \<^verbatim>\<open>parseFloat\<close> in that range
  is TAB, LF, VT, FF, CR, SP and NBSP.
\<close>

definition white_space :: "char \<Rightarrow> bool" where
  "white_space ch = (of_char ch \<in> {9, 10, 11, 12, 13, 32, 160 :: nat})"

definition trim :: "string \<Rightarrow> string" where
  "trim s = rev (dropWhile white_space (rev (dropWhile white_space s)))"

text \<open>\<^verbatim>\<open>s.split(sep)\<close> for a one-character separator: never an empty array.\<close>

fun split :: "char \<Rightarrow> string \<Rightarrow> string list" where
  "split sep [] = [[]]"
| "split sep (x # xs) =
     (if x = sep then [] # split sep xs
      else (case split sep xs of
              [] \<Rightarrow> [[x]]
            | y # ys \<Rightarrow> (x # y) # ys))"

subsection \<open>parseFloat\<close>

text \<open>
  \<^verbatim>\<open>parseFloat\<close> skips leading white space and reads the longest prefix that is a
  \<open>StrDecimalLiteral\<close>: an optional sign, then \<^verbatim>\<open>Infinity\<close> or decimal digits with
  an optional fraction (at least one digit before or after the point) and an
  optional exponent (taken only when it has a digit). The rest of the string is
  ignored. Without such a prefix the result is NaN; nothing is thrown.
\<close>

definition is_digit :: "char \<Rightarrow> bool" where
  "is_digit ch = (48 \<le> (of_char ch :: nat) \<and> (of_char ch :: nat) \<le> 57)"

definition digits_val :: "string \<Rightarrow> nat" where
  "digits_val ds = foldl (\<lambda>acc d. 10 * acc + (of_char d - 48)) 0 ds"

text \<open>The exponent part at the head of a string, 0 when there is none.\<close>

definition exponent_part :: "string \<Rightarrow> int" where
  "exponent_part s =
     (case s of
        [] \<Rightarrow> 0
      | e # r \<Rightarrow>
          if e = CHR ''e'' \<or> e = CHR ''E'' then
            (case r of
               [] \<Rightarrow> 0
             | sgc # r' \<Rightarrow>
                 if sgc = CHR ''-'' then
                   (if takeWhile is_digit r' = [] then 0
                    else - int (digits_val (takeWhile is_digit r')))
                 else if sgc = CHR ''+'' then int (digits_val (takeWhile is_digit r'))
                 else int (digits_val (takeWhile is_digit r)))
          else 0)"

definition scale10 :: "real \<Rightarrow> int \<Rightarrow> real" where
  "scale10 m e = (if e \<ge> 0 then m * 10 ^ nat e else m / 10 ^ nat (- e))"

definition unsigned_literal :: "string \<Rightarrow> number" where
  "unsigned_literal s =
     (if take 8 s = ''Infinity'' then PInf
      else
        let ip = takeWhile is_digit s;
            r = dropWhile is_digit s;
            dot = (r \<noteq> [] \<and> hd r = CHR ''.'');
            fp = (if dot then takeWhile is_digit (tl r) else []);
            r2 = (if dot then dropWhile is_digit (tl r) else r)
        in if ip = [] \<and> fp = [] then NaN
           else Fin (scale10 (real (digits_val ip) + real (digits_val fp) / 10 ^ length fp)
                             (exponent_part r2)))"

definition parseFloat :: "string \<Rightarrow> number" where
  "parseFloat s =
     (case dropWhile white_space s of
        [] \<Rightarrow> NaN
      | ch # r \<Rightarrow>
          if ch = CHR ''-'' then - unsigned_literal r
          else if ch = CHR ''+'' then unsigned_literal r
          else unsigned_literal (ch # r))"

section \<open>The point parser\<close>

record point =
  t :: number
  c :: number

text \<open>
  The callback of \<^verbatim>\<open>csv.split(",").map\<close>. The destructuring \<^verbatim>\<open>[t, c]\<close> takes the
  first two parts of \<^verbatim>\<open>p.split(":")\<close>; with no colon \<^verbatim>\<open>c\<close> is \<^verbatim>\<open>undefined\<close>, which
  \<^verbatim>\<open>parseFloat\<close> converts to the string \<^verbatim>\<open>"undefined"\<close>.
\<close>

definition parsePoint :: "string \<Rightarrow> point" where
  "parsePoint p =
     (case map trim (split CHR '':'' p) of
        [] \<Rightarrow> \<lparr> t = parseFloat ''undefined'', c = parseFloat ''undefined'' \<rparr>
      | [a] \<Rightarrow> \<lparr> t = parseFloat a, c = parseFloat ''undefined'' \<rparr>
      | a # b # _ \<Rightarrow> \<lparr> t = parseFloat a, c = parseFloat b \<rparr>)"

text \<open>
  \<^verbatim>\<open>arr.sort((a, b) => a.t - b.t)\<close>. The comparator's result counts as 0 when it is
  NaN, and \<^verbatim>\<open>Array.prototype.sort\<close> is stable: an element moves behind another one
  only when the comparator is positive. With times that are not NaN the comparator
  is consistent and every conforming engine returns what this insertion sort does.
\<close>

definition compare_t :: "point \<Rightarrow> point \<Rightarrow> number" where
  "compare_t a b = t a - t b"

fun insert_sorted :: "point \<Rightarrow> point list \<Rightarrow> point list" where
  "insert_sorted x [] = [x]"
| "insert_sorted x (y # ys) =
     (if js_gt (compare_t x y) (Fin 0) then y # insert_sorted x ys else x # y # ys)"

definition sort_points :: "point list \<Rightarrow> point list" where
  "sort_points arr = foldr insert_sorted arr []"

datatype exn = TypeError

text \<open>
  The body of the \<^verbatim>\<open>try\<close> block. On a string argument none of \<^verbatim>\<open>split\<close>, \<^verbatim>\<open>map\<close>,
  \<^verbatim>\<open>trim\<close>, \<^verbatim>\<open>parseFloat\<close> and \<^verbatim>\<open>sort\<close> throws, so the body always completes.
\<close>

definition parsePoints_try :: "string \<Rightarrow> exn + point list" where
  "parsePoints_try csv = Inr (sort_points (map parsePoint (split CHR '','' csv)))"

definition parsePoints :: "string \<Rightarrow> point list" where
  "parsePoints csv = (case parsePoints_try csv of Inr arr \<Rightarrow> arr | Inl e \<Rightarrow> [])"

section \<open>The AUC integrator\<close>

text \<open>The \<^verbatim>\<open>for\<close> loop of \<^verbatim>\<open>trapezoidalAUC\<close>, from index \<open>i\<close> (the loop starts at 1) with
  the running sum.\<close>

function auc_loop :: "point list \<Rightarrow> nat \<Rightarrow> number \<Rightarrow> number" where
  "auc_loop points i auc =
     (if i < length points then
        (let dt = t (points ! i) - t (points ! (i - 1));
             avgC = (c (points ! i) + c (points ! (i - 1))) / Fin 2
         in auc_loop points (i + 1) (auc + avgC * dt))
      else auc)"
  by pat_completeness auto
termination
  by (relation "measure (\<lambda>(points, i, auc). length points - i)") auto

declare auc_loop.simps [simp del]

definition trapezoidalAUC :: "point list \<Rightarrow> number" where
  "trapezoidalAUC points = auc_loop points 1 (Fin 0)"

section \<open>The terminal slope\<close>

text \<open>\<^verbatim>\<open>arr.slice(-n)\<close>: from index \<open>max (length - n) 0\<close> to the end.\<close>

definition slice_neg :: "nat \<Rightarrow> 'a list \<Rightarrow> 'a list" where
  "slice_neg n arr = drop (nat (max (int (length arr) - int n) 0)) arr"

text \<open>\<^verbatim>\<open>xs.reduce((a, b) => a + b, 0)\<close>.\<close>

definition reduce_add :: "number list \<Rightarrow> number" where
  "reduce_add xs = foldl (\<lambda>a b. a + b) (Fin 0) xs"

text \<open>The regression loop, from index \<open>i\<close> with the running \<open>num\<close> and \<open>den\<close>.\<close>

function slope_loop ::
  "number list \<Rightarrow> number list \<Rightarrow> number \<Rightarrow> number \<Rightarrow> nat \<Rightarrow> nat \<Rightarrow> number \<times> number
     \<Rightarrow> number \<times> number" where
  "slope_loop xs ys xbar ybar n i (num, den) =
     (if i < n then
        slope_loop xs ys xbar ybar n (i + 1)
          (num + (xs ! i - xbar) * (ys ! i - ybar),
           den + (xs ! i - xbar) * (xs ! i - xbar))
      else (num, den))"
  by pat_completeness auto
termination
  by (relation "measure (\<lambda>(xs, ys, xbar, ybar, n, i, acc). n - i)") auto

declare slope_loop.simps [simp del]

definition estimateTerminalK :: "point list \<Rightarrow> number option" where
  "estimateTerminalK points =
     (let nonzero = filter (\<lambda>p. js_gt (c p) (Fin 0)) points
      in if length nonzero < 2 then None
         else
           let last = slice_neg 4 nonzero;
               xs = map (\<lambda>p. t p) last;
               ys = map (\<lambda>p. Math_log (c p)) last;
               n = length xs;
               xbar = reduce_add xs / Fin (real n);
               ybar = reduce_add ys / Fin (real n);
               (num, den) = slope_loop xs ys xbar ybar n 0 (Fin 0, Fin 0)
           in if den = Fin 0 then None
              else
                let slope = num / den;
                    k = - slope
                in if js_gt k (Fin 0) then Some k else None)"

section \<open>The form and its submission\<close>

text \<open>The state of the form: the \<^verbatim>\<open>useState\<close> cells that \<^verbatim>\<open>handleCalculate\<close> can
  read. The route is one of the two options of the select box.\<close>

datatype route = Oral | IV

record form =
  drugName :: string
  dose :: number
  route :: route
  F :: number
  Vd :: number
  Cl :: number
  t12 :: number
  ka :: number
  tau :: number
  cssTarget :: number
  pointsCsv :: string

text \<open>The object passed to \<^verbatim>\<open>setResults\<close>; \<open>None\<close> is \<^verbatim>\<open>null\<close>.\<close>

record results =
  points :: "point list"
  auc :: number
  k_from_t12 :: "number option"
  k_from_cl_vd :: "number option"
  k_est :: "number option"
  k :: "number option"
  t_half :: "number option"
  aucInf :: "number option"
  Cmax :: number
  Tmax :: number
  LD :: number
  MD :: number
  MD_rate :: number
  lastC :: number

text \<open>\<^verbatim>\<open>a || b\<close> on numbers and on nullable numbers: \<open>a\<close> when it is truthy, else \<open>b\<close>.\<close>

definition or_num :: "number \<Rightarrow> number \<Rightarrow> number" where
  "or_num a b = (if truthy a then a else b)"

fun truthy_opt :: "number option \<Rightarrow> bool" where
  "truthy_opt None = False"
| "truthy_opt (Some v) = truthy v"

definition or_opt :: "number option \<Rightarrow> number option \<Rightarrow> number option" where
  "or_opt a b = (if truthy_opt a then a else b)"

text \<open>The callback of \<^verbatim>\<open>points.forEach\<close>, on the pair \<open>(Cmax, Tmax)\<close>.\<close>

definition peak_step :: "number \<times> number \<Rightarrow> point \<Rightarrow> number \<times> number" where
  "peak_step acc p = (if js_gt (c p) (fst acc) then (c p, t p) else acc)"

definition peak_scan :: "point list \<Rightarrow> number \<times> number" where
  "peak_scan ps = foldl peak_step (Fin 0, Fin 0) ps"

text \<open>
  \<^verbatim>\<open>handleCalculate\<close> reads the state, computes the result object and hands it to
  \<^verbatim>\<open>setResults\<close>; the model returns that object. The call \<^verbatim>\<open>e.preventDefault()\<close> has
  no part in the computation.
\<close>

definition handleCalculate :: "form \<Rightarrow> results" where
  "handleCalculate s =
     (let points = parsePoints (pointsCsv s);
          auc = trapezoidalAUC points;
          k_from_t12 = (if truthy (t12 s) then Some (Fin 0.693 / t12 s) else None);
          k_from_cl_vd = (if truthy (Cl s) \<and> truthy (Vd s) then Some (Cl s / Vd s) else None);
          k_est = estimateTerminalK points;
          k = or_opt (or_opt (or_opt k_est k_from_cl_vd) k_from_t12) None;
          t_half = (case k of
                      None \<Rightarrow> None
                    | Some kv \<Rightarrow> if truthy kv then Some (Fin 0.693 / kv) else None);
          lastC = (if length points \<noteq> 0 then c (points ! (length points - 1)) else Fin 0);
          aucInf = (case k of
                      None \<Rightarrow> None
                    | Some kv \<Rightarrow> if truthy kv then Some (auc + lastC / kv) else None);
          (Cmax, Tmax) = peak_scan points;
          LD = (cssTarget s * Vd s) / or_num (F s) (Fin 1);
          MD_rate = cssTarget s *
                    or_num (Cl s)
                      (case k of
                         None \<Rightarrow> Fin 0
                       | Some kv \<Rightarrow> if truthy kv \<and> truthy (Vd s) then kv * Vd s else Fin 0);
          MD = MD_rate * or_num (tau s) (Fin 1) / or_num (F s) (Fin 1)
      in \<lparr> points = points, auc = auc, k_from_t12 = k_from_t12,
           k_from_cl_vd = k_from_cl_vd, k_est = k_est, k = k, t_half = t_half,
           aucInf = aucInf, Cmax = Cmax, Tmax = Tmax, LD = LD, MD = MD,
           MD_rate = MD_rate, lastC = lastC \<rparr>)"

text \<open>The initial values of the \<^verbatim>\<open>useState\<close> cells.\<close>

definition default_form :: form where
  "default_form =
     \<lparr> drugName = ''Tetracycline'', dose = Fin 500, route = Oral, F = Fin 0.6, Vd = Fin 40,
       Cl = Fin 4, t12 = Fin 8, ka = Fin 1.2, tau = Fin 12, cssTarget = Fin 2,
       pointsCsv = ''0:0,1:2.1,2:3.5,4:2.2,6:1.1,8:0.6'' \<rparr>"

section \<open>Notions of the specification\<close>



text \<open>The sum of a list of numbers; the areas of the trapezoids between consecutive
  samples; the last (at most) \<open>n\<close> elements of a list.\<close>

definition num_sum :: "number list \<Rightarrow> number" where
  "num_sum xs = foldr (\<lambda>a b. a + b) xs (Fin 0)"



text \<open>
  Ordinary least squares on pairs \<open>(x, y)\<close>: the fitted slope is \<open>S\<^sub>x\<^sub>y / S\<^sub>x\<^sub>x\<close>, the sum
  of the products of the deviations from the means over the sum of the squared
  deviations of \<open>x\<close>. The terminal-slope candidate as the specification words it:
  regression of the logarithm of the concentration on time over the last (at most)
  four samples of positive concentration.
\<close>

definition mean :: "number list \<Rightarrow> number" where
  "mean xs = num_sum xs / Fin (real (length xs))"

definition ols_sxy :: "(number \<times> number) list \<Rightarrow> number" where
  "ols_sxy data =
     num_sum (map (\<lambda>(x, y). (x - mean (map fst data)) * (y - mean (map snd data))) data)"

definition ols_sxx :: "(number \<times> number) list \<Rightarrow> number" where
  "ols_sxx data =
     num_sum (map (\<lambda>(x, y). (x - mean (map fst data)) * (x - mean (map fst data))) data)"


text \<open>The first candidate that is defined, and the first one that is defined and truthy.\<close>

fun first_defined :: "number option list \<Rightarrow> number option" where
  "first_defined [] = None"
| "first_defined (None # xs) = first_defined xs"
| "first_defined (Some v # xs) = Some v"

fun first_truthy :: "number option list \<Rightarrow> number option" where
  "first_truthy [] = None"
| "first_truthy (x # xs) = (if truthy_opt x then x else first_truthy xs)"

text \<open>
  The first sample whose concentration is a maximum of the sequence, and the peak as
  the scan finds it: the first sample whose concentration is above 0 and not exceeded
  by any other, or \<open>(0, 0)\<close> when there is none.
\<close>

definition first_max :: "point list \<Rightarrow> point option" where
  "first_max ps = find (\<lambda>p. list_all (\<lambda>q. js_le (c q) (c p)) ps) ps"

definition peak_spec :: "point list \<Rightarrow> number \<times> number" where
  "peak_spec ps =
     (case find (\<lambda>p. js_gt (c p) (Fin 0) \<and> list_all (\<lambda>q. \<not> js_gt (c q) (c p)) ps) ps of
        Some p \<Rightarrow> (c p, t p)
      | None \<Rightarrow> (Fin 0, Fin 0))"

section \<open>Properties of the point parser\<close>

lemma split_not_Nil: "split sep s \<noteq> []"
  by (induction s) (auto split: list.splits)

lemma length_insert_sorted: "length (insert_sorted x ys) = Suc (length ys)"
  by (induction ys) auto

lemma length_sort_points: "length (sort_points arr) = length arr"
  by (induction arr) (auto simp: sort_points_def length_insert_sorted)

lemma parsePoints_eq: "parsePoints csv = sort_points (map parsePoint (split CHR '','' csv))"
  by (simp add: parsePoints_def parsePoints_try_def)

text \<open>The \<^verbatim>\<open>catch\<close> branch is dead: on every string the parser returns at least one
  sample, because \<^verbatim>\<open>split\<close> returns at least one segment.\<close>

lemma parsePoints_not_Nil: "parsePoints csv \<noteq> []"
proof -
  have "length (parsePoints csv) = length (split CHR '','' csv)"
    by (simp add: parsePoints_eq length_sort_points)
  moreover have "length (split CHR '','' csv) \<noteq> 0"
    using split_not_Nil [of "CHR '',''" csv] by simp
  ultimately show ?thesis by auto
qed

text \<open>
  C1. The claim: a string with a malformed segment, such as \<^verbatim>\<open>"abc"\<close>, makes
  \<^verbatim>\<open>parsePoints\<close> return the empty sequence. The code does not: \<^verbatim>\<open>parseFloat("abc")\<close>
  is NaN, the missing second half is \<^verbatim>\<open>undefined\<close> and parses to NaN as well,
  nothing is thrown, and the result is one sample whose time and concentration are
  both NaN.
\<close>

theorem parsePoints_abc: "parsePoints ''abc'' = [\<lparr>t = NaN, c = NaN\<rparr>]"
  by code_simp


subsection \<open>Sorting\<close>



lemma js_le_total: "a \<noteq> NaN \<Longrightarrow> b \<noteq> NaN \<Longrightarrow> \<not> js_gt a b \<Longrightarrow> js_le a b"
  by (cases a; cases b) auto










subsection \<open>Trimming\<close>








subsection \<open>Well-formed input\<close>


lemma parsePoints_default:
  "parsePoints ''0:0,1:2.1,2:3.5,4:2.2,6:1.1,8:0.6'' =
     [\<lparr>t = Fin 0, c = Fin 0\<rparr>, \<lparr>t = Fin 1, c = Fin 2.1\<rparr>, \<lparr>t = Fin 2, c = Fin 3.5\<rparr>,
      \<lparr>t = Fin 4, c = Fin 2.2\<rparr>, \<lparr>t = Fin 6, c = Fin 1.1\<rparr>, \<lparr>t = Fin 8, c = Fin 0.6\<rparr>]"
  by code_simp


section \<open>Sums of numbers\<close>


lemma add_0_number [simp]: "Fin 0 + x = x" "x + Fin 0 = x"
  by (cases x; simp)+



section \<open>Properties of the AUC integrator\<close>









section \<open>Properties of the terminal slope\<close>





lemma estimateTerminalK_two_points:
  "estimateTerminalK [\<lparr>t = Fin 0, c = Fin 4\<rparr>, \<lparr>t = Fin 1, c = Fin 1\<rparr>] = Some (Fin (ln 4))"
  by (simp add: estimateTerminalK_def slice_neg_def reduce_add_def slope_loop.simps
      minus_number_def Let_def)


text \<open>On finite data the two sums are the textbook ones, over the reals.\<close>

lemma num_sum_Fin: "num_sum (map Fin rs) = Fin (sum_list rs)"
  by (induction rs) (auto simp: num_sum_def)

lemma mean_Fin: "rs \<noteq> [] \<Longrightarrow> mean (map Fin rs) = Fin (sum_list rs / real (length rs))"
  by (simp add: mean_def num_sum_Fin)

lemma ols_finite:
  fixes rs :: "(real \<times> real) list"
  defines "mx \<equiv> sum_list (map fst rs) / real (length rs)"
    and "my \<equiv> sum_list (map snd rs) / real (length rs)"
  shows "ols_sxy (map (\<lambda>(x, y). (Fin x, Fin y)) rs) = Fin (\<Sum>(x, y)\<leftarrow>rs. (x - mx) * (y - my))"
    and "ols_sxx (map (\<lambda>(x, y). (Fin x, Fin y)) rs) = Fin (\<Sum>(x, y)\<leftarrow>rs. (x - mx) * (x - mx))"
proof -
  let ?data = "map (\<lambda>(x, y). (Fin x, Fin y)) rs"
  have f: "map fst ?data = map Fin (map fst rs)" "map snd ?data = map Fin (map snd rs)"
    by (simp_all add: comp_def case_prod_beta)
  show "ols_sxy ?data = Fin (\<Sum>(x, y)\<leftarrow>rs. (x - mx) * (y - my))"
  proof (cases "rs = []")
    case True
    then show ?thesis by (simp add: ols_sxy_def num_sum_def)
  next
    case False
    then have m: "mean (map fst ?data) = Fin mx" "mean (map snd ?data) = Fin my"
      using mean_Fin [of "map fst rs"] mean_Fin [of "map snd rs"]
      unfolding f mx_def my_def by simp_all
    have "map (\<lambda>(x, y). (x - Fin mx) * (y - Fin my)) ?data
            = map Fin (map (\<lambda>(x, y). (x - mx) * (y - my)) rs)"
      by (simp add: comp_def case_prod_beta minus_number_def)
    then show ?thesis
      unfolding ols_sxy_def m by (simp only: num_sum_Fin)
  qed
  show "ols_sxx ?data = Fin (\<Sum>(x, y)\<leftarrow>rs. (x - mx) * (x - mx))"
  proof (cases "rs = []")
    case True
    then show ?thesis by (simp add: ols_sxx_def num_sum_def)
  next
    case False
    then have m: "mean (map fst ?data) = Fin mx"
      using mean_Fin [of "map fst rs"] unfolding f mx_def by simp
    have "map (\<lambda>(x, y). (x - Fin mx) * (x - Fin mx)) ?data
            = map Fin (map (\<lambda>(x, y). (x - mx) * (x - mx)) rs)"
      by (simp add: comp_def case_prod_beta minus_number_def)
    then show ?thesis
      unfolding ols_sxx_def m by (simp only: num_sum_Fin)
  qed
qed

section \<open>The fields of the result\<close>

lemma hc_points: "points (handleCalculate s) = parsePoints (pointsCsv s)"
  by (simp add: handleCalculate_def Let_def split: prod.split)

lemma hc_auc: "auc (handleCalculate s) = trapezoidalAUC (parsePoints (pointsCsv s))"
  by (simp add: handleCalculate_def Let_def split: prod.split)

lemma hc_k_from_t12:
  "k_from_t12 (handleCalculate s) = (if truthy (t12 s) then Some (Fin 0.693 / t12 s) else None)"
  by (simp add: handleCalculate_def Let_def split: prod.split)

lemma hc_k_from_cl_vd:
  "k_from_cl_vd (handleCalculate s) =
     (if truthy (Cl s) \<and> truthy (Vd s) then Some (Cl s / Vd s) else None)"
  by (simp add: handleCalculate_def Let_def split: prod.split)

lemma hc_k_est: "k_est (handleCalculate s) = estimateTerminalK (parsePoints (pointsCsv s))"
  by (simp add: handleCalculate_def Let_def split: prod.split)

lemma hc_k:
  "k (handleCalculate s) =
     or_opt (or_opt (or_opt (k_est (handleCalculate s)) (k_from_cl_vd (handleCalculate s)))
               (k_from_t12 (handleCalculate s))) None"
  by (simp add: handleCalculate_def Let_def split: prod.split)

lemma hc_k_truthy: "k (handleCalculate s) = Some kv \<Longrightarrow> truthy kv"
  unfolding hc_k by (auto simp: or_opt_def split: if_splits)

lemma hc_t_half:
  "t_half (handleCalculate s) =
     (case k (handleCalculate s) of None \<Rightarrow> None | Some kv \<Rightarrow> Some (Fin 0.693 / kv))"
proof -
  have "t_half (handleCalculate s) =
     (case k (handleCalculate s) of None \<Rightarrow> None
      | Some kv \<Rightarrow> if truthy kv then Some (Fin 0.693 / kv) else None)"
    by (simp add: handleCalculate_def Let_def split: prod.split)
  then show ?thesis
    using hc_k_truthy [of s] by (auto split: option.splits)
qed

lemma hc_lastC:
  "lastC (handleCalculate s) =
     (if points (handleCalculate s) = [] then Fin 0 else c (last (points (handleCalculate s))))"
  by (simp add: handleCalculate_def Let_def last_conv_nth split: prod.split)

lemma hc_aucInf:
  "aucInf (handleCalculate s) =
     (case k (handleCalculate s) of None \<Rightarrow> None
      | Some kv \<Rightarrow> Some (auc (handleCalculate s) + lastC (handleCalculate s) / kv))"
proof -
  have "aucInf (handleCalculate s) =
     (case k (handleCalculate s) of None \<Rightarrow> None
      | Some kv \<Rightarrow> if truthy kv then Some (auc (handleCalculate s) + lastC (handleCalculate s) / kv) else None)"
    by (simp add: handleCalculate_def Let_def split: prod.split option.split)
  then show ?thesis
    using hc_k_truthy [of s] by (auto split: option.splits)
qed

lemma hc_peak:
  "(Cmax (handleCalculate s), Tmax (handleCalculate s)) = peak_scan (points (handleCalculate s))"
  by (simp add: handleCalculate_def Let_def split: prod.split)




lemma parsePoints_one: "parsePoints ''0:0'' = [\<lparr>t = Fin 0, c = Fin 0\<rparr>]"
  by code_simp

lemma estimateTerminalK_one: "estimateTerminalK [p] = None"
  by (simp add: estimateTerminalK_def)

lemma hc_one_sample:
  "pointsCsv s = ''0:0'' \<Longrightarrow> k_est (handleCalculate s) = None"
  by (simp add: hc_k_est parsePoints_one estimateTerminalK_one)

section \<open>The constant 0.693\<close>

text \<open>The literal \<open>0.693\<close> of the source is below \<open>ln 2\<close>: the Taylor polynomial of
  degree 6 of \<open>exp\<close> at \<open>0.693\<close>, with its remainder, stays below 2.\<close>

lemma exp_693_less_2: "exp (693 / 1000 :: real) < 2"
proof -
  define x :: real where "x = 693 / 1000"
  obtain u where u: "\<bar>u\<bar> \<le> \<bar>x\<bar>"
    and e: "exp x = (\<Sum>m<7. x ^ m / fact m) + exp u / fact 7 * x ^ 7"
    using Maclaurin_exp_le [of x 7] by blast
  have "u \<le> 1" using u by (simp add: x_def)
  then have "exp u \<le> exp 1" by simp
  also have "\<dots> \<le> 3" by (rule exp_le)
  finally have eu: "exp u \<le> 3" .
  have "exp u / fact 7 * x ^ 7 \<le> 3 / fact 7 * x ^ 7"
    using eu by (intro mult_right_mono divide_right_mono) (simp_all add: x_def)
  then have "exp x \<le> (\<Sum>m<7. x ^ m / fact m) + 3 / fact 7 * x ^ 7"
    using e by simp
  also have "\<dots> < 2"
    by (simp add: x_def lessThan_nat_numeral lessThan_Suc fact_numeral eval_nat_numeral)
  finally show ?thesis by (simp add: x_def)
qed

lemma ln2_gt_693: "(693 / 1000 :: real) < ln 2"
proof -
  have "exp (693 / 1000 :: real) < exp (ln 2)"
    using exp_693_less_2 by simp
  then show ?thesis by (simp only: exp_less_cancel_iff)
qed

section \<open>The selected rate\<close>

text \<open>
  C2, as stated, fails. The claim: the selected rate is the first defined candidate in
  the order terminal slope, \<open>Cl / Vd\<close>, half-life. With \<open>Vd = Infinity\<close> and one sample
  (no terminal slope), \<open>Cl / Vd\<close> is defined and equal to 0, so it is the first
  defined candidate; \<^verbatim>\<open>||\<close> skips it because 0 is falsy, and the selected rate is the
  half-life candidate \<open>0.693 / 8\<close>.
\<close>

theorem selected_rate_not_first_defined:
  "k_est (handleCalculate (default_form\<lparr>Vd := PInf, pointsCsv := ''0:0''\<rparr>)) = None
   \<and> k_from_cl_vd (handleCalculate (default_form\<lparr>Vd := PInf, pointsCsv := ''0:0''\<rparr>)) = Some (Fin 0)
   \<and> k_from_t12 (handleCalculate (default_form\<lparr>Vd := PInf, pointsCsv := ''0:0''\<rparr>))
       = Some (Fin 0.086625)
   \<and> first_defined
        [k_est (handleCalculate (default_form\<lparr>Vd := PInf, pointsCsv := ''0:0''\<rparr>)),
         k_from_cl_vd (handleCalculate (default_form\<lparr>Vd := PInf, pointsCsv := ''0:0''\<rparr>)),
         k_from_t12 (handleCalculate (default_form\<lparr>Vd := PInf, pointsCsv := ''0:0''\<rparr>))]
       = Some (Fin 0)
   \<and> k (handleCalculate (default_form\<lparr>Vd := PInf, pointsCsv := ''0:0''\<rparr>))
       = Some (Fin 0.086625)"
  by (simp add: hc_k hc_one_sample hc_k_from_cl_vd hc_k_from_t12 default_form_def or_opt_def)

text \<open>
  C2, amended. A terminal-slope candidate that is defined is selected (it is above 0,
  hence truthy); otherwise the selected rate is the first of the \<open>Cl / Vd\<close> and
  half-life candidates that is defined and truthy (not 0, not NaN), and it is
  undefined when there is none, in particular when no candidate is defined.
\<close>

theorem selected_rate_first_truthy:
  "k (handleCalculate s) =
     (case k_est (handleCalculate s) of
        Some v \<Rightarrow> Some v
      | None \<Rightarrow> first_truthy [k_from_cl_vd (handleCalculate s), k_from_t12 (handleCalculate s)])"
proof -
  have "truthy v" if "estimateTerminalK ps = Some v" for ps v
    using that by (cases v) (auto simp: estimateTerminalK_def Let_def split: if_splits prod.splits)
  then show ?thesis
    unfolding hc_k by (auto simp: or_opt_def hc_k_est split: option.splits)
qed

lemma parsePoints_two: "parsePoints ''0:4,1:1'' = [\<lparr>t = Fin 0, c = Fin 4\<rparr>, \<lparr>t = Fin 1, c = Fin 1\<rparr>]"
  by code_simp

theorem selected_rate_first_truthy_witness:
  "k (handleCalculate (default_form\<lparr>pointsCsv := ''0:0''\<rparr>)) = Some (Fin 0.1)
   \<and> first_truthy [k_from_cl_vd (handleCalculate (default_form\<lparr>pointsCsv := ''0:0''\<rparr>)),
                    k_from_t12 (handleCalculate (default_form\<lparr>pointsCsv := ''0:0''\<rparr>))]
       = Some (Fin 0.1)
   \<and> k_est (handleCalculate (default_form\<lparr>pointsCsv := ''0:4,1:1''\<rparr>)) = Some (Fin (ln 4))
   \<and> k_from_cl_vd (handleCalculate (default_form\<lparr>pointsCsv := ''0:4,1:1''\<rparr>)) = Some (Fin 0.1)
   \<and> k_from_t12 (handleCalculate (default_form\<lparr>pointsCsv := ''0:4,1:1''\<rparr>)) = Some (Fin 0.086625)
   \<and> k (handleCalculate (default_form\<lparr>pointsCsv := ''0:4,1:1''\<rparr>)) = Some (Fin (ln 4))"
proof -
  have a: "k_est (handleCalculate (default_form\<lparr>pointsCsv := ''0:0''\<rparr>)) = None"
    by (simp add: hc_one_sample)
  have e: "k_est (handleCalculate (default_form\<lparr>pointsCsv := ''0:4,1:1''\<rparr>)) = Some (Fin (ln 4))"
    by (simp add: hc_k_est parsePoints_two estimateTerminalK_two_points)
  have b: "k_from_cl_vd (handleCalculate (default_form\<lparr>pointsCsv := x\<rparr>)) = Some (Fin 0.1)"
    "k_from_t12 (handleCalculate (default_form\<lparr>pointsCsv := x\<rparr>)) = Some (Fin 0.086625)" for x
    by (simp_all add: hc_k_from_cl_vd hc_k_from_t12 default_form_def)
  show ?thesis
    using selected_rate_first_truthy [of "default_form\<lparr>pointsCsv := ''0:0''\<rparr>"]
      selected_rate_first_truthy [of "default_form\<lparr>pointsCsv := ''0:4,1:1''\<rparr>"]
    by (simp add: a e b)
qed

section \<open>Half-life and extrapolated AUC\<close>

text \<open>
  C6, as stated, fails. The claim: the derived half-life is \<open>ln 2 / k\<close>. With the
  initial parameters and one sample the selected rate is \<open>Cl / Vd = 0.1\<close> and the
  half-life is \<open>0.693 / 0.1 = 6.93\<close>, which is not \<open>ln 2 / 0.1\<close>.
\<close>

theorem half_life_not_ln2:
  "k (handleCalculate (default_form\<lparr>pointsCsv := ''0:0''\<rparr>)) = Some (Fin 0.1)
   \<and> t_half (handleCalculate (default_form\<lparr>pointsCsv := ''0:0''\<rparr>)) = Some (Fin 6.93)
   \<and> t_half (handleCalculate (default_form\<lparr>pointsCsv := ''0:0''\<rparr>)) \<noteq> Some (Fin (ln 2) / Fin 0.1)"
proof -
  have kk: "k (handleCalculate (default_form\<lparr>pointsCsv := ''0:0''\<rparr>)) = Some (Fin 0.1)"
    by (simp add: hc_k hc_one_sample hc_k_from_cl_vd hc_k_from_t12 default_form_def or_opt_def)
  have "(693 / 100 :: real) \<noteq> ln 2 * 10"
    using ln2_gt_693 by simp
  then show ?thesis
    by (simp add: kk hc_t_half)
qed

text \<open>
  C6, amended. When the selected rate \<open>k\<close> is defined, the derived half-life is
  \<open>0.693 / k\<close> and the extrapolated AUC is the trapezoidal AUC plus the concentration
  of the last sample over \<open>k\<close>, the last concentration being 0 for an empty sequence;
  when \<open>k\<close> is undefined both are undefined.
\<close>

theorem derived_quantities:
  "(case k (handleCalculate s) of
      Some kv \<Rightarrow>
        t_half (handleCalculate s) = Some (Fin 0.693 / kv)
        \<and> aucInf (handleCalculate s)
            = Some (trapezoidalAUC (points (handleCalculate s)) + lastC (handleCalculate s) / kv)
    | None \<Rightarrow> t_half (handleCalculate s) = None \<and> aucInf (handleCalculate s) = None)
   \<and> lastC (handleCalculate s)
       = (if points (handleCalculate s) = [] then Fin 0 else c (last (points (handleCalculate s))))"
proof (rule conjI)
  show "case k (handleCalculate s) of
      None \<Rightarrow> t_half (handleCalculate s) = None \<and> aucInf (handleCalculate s) = None
    | Some kv \<Rightarrow>
        t_half (handleCalculate s) = Some (Fin 0.693 / kv)
        \<and> aucInf (handleCalculate s)
            = Some (trapezoidalAUC (points (handleCalculate s)) + lastC (handleCalculate s) / kv)"
    by (simp add: hc_t_half hc_aucInf hc_auc hc_points split: option.split)
  show "lastC (handleCalculate s)
       = (if points (handleCalculate s) = [] then Fin 0 else c (last (points (handleCalculate s))))"
    by (rule hc_lastC)
qed

theorem derived_quantities_witness:
  "t_half (handleCalculate (default_form\<lparr>pointsCsv := ''0:0''\<rparr>)) = Some (Fin 6.93)
   \<and> aucInf (handleCalculate (default_form\<lparr>pointsCsv := ''0:0''\<rparr>)) = Some (Fin 0)
   \<and> lastC (handleCalculate (default_form\<lparr>pointsCsv := ''0:0''\<rparr>)) = Fin 0"
proof -
  have kk: "k (handleCalculate (default_form\<lparr>pointsCsv := ''0:0''\<rparr>)) = Some (Fin 0.1)"
    by (simp add: hc_k hc_one_sample hc_k_from_cl_vd hc_k_from_t12 default_form_def or_opt_def)
  have pp: "points (handleCalculate (default_form\<lparr>pointsCsv := ''0:0''\<rparr>)) = [\<lparr>t = Fin 0, c = Fin 0\<rparr>]"
    by (simp add: hc_points parsePoints_one)
  have aa: "trapezoidalAUC [\<lparr>t = Fin 0, c = Fin 0\<rparr>] = Fin 0"
    by (simp add: trapezoidalAUC_def auc_loop.simps)
  show ?thesis
    using derived_quantities [of "default_form\<lparr>pointsCsv := ''0:0''\<rparr>"]
    by (simp add: kk pp aa)
qed

section \<open>The rate candidates\<close>

text \<open>
  C9. For a half-life that is a number (not NaN) the half-life candidate is defined
  exactly when the half-life is not 0, and it is \<open>0.693 / t\<^sub>1\<^sub>/\<^sub>2\<close>, with the literal
  0.693 and not \<open>ln 2\<close>; for a clearance and a volume that are numbers the \<open>Cl / Vd\<close>
  candidate is defined exactly when neither is 0, and it is their quotient. A
  half-life of 8 gives 0.086625; \<open>Cl = 4\<close> and \<open>Vd = 40\<close> give 0.1.
\<close>

theorem rate_candidates:
  assumes "t12 s \<noteq> NaN" "Cl s \<noteq> NaN" "Vd s \<noteq> NaN"
  shows "k_from_t12 (handleCalculate s)
           = (if t12 s = Fin 0 then None else Some (Fin 0.693 / t12 s))
   \<and> k_from_cl_vd (handleCalculate s)
       = (if Cl s = Fin 0 \<or> Vd s = Fin 0 then None else Some (Cl s / Vd s))
   \<and> (t12 s = Fin 8 \<longrightarrow> k_from_t12 (handleCalculate s) = Some (Fin 0.086625))
   \<and> (Cl s = Fin 4 \<and> Vd s = Fin 40 \<longrightarrow> k_from_cl_vd (handleCalculate s) = Some (Fin 0.1))
   \<and> (is_fin (t12 s) \<longrightarrow> k_from_t12 (handleCalculate s) \<noteq> Some (Fin (ln 2) / t12 s))"
proof -
  have tr: "truthy x = (x \<noteq> Fin 0)" if "x \<noteq> NaN" for x
    using that by (cases x) auto
  have "Fin 0.693 / Fin x \<noteq> Fin (ln 2) / Fin x" if "x \<noteq> 0" for x
    using ln2_gt_693 that by (simp add: field_simps)
  then have "k_from_t12 (handleCalculate s) \<noteq> Some (Fin (ln 2) / t12 s)" if "is_fin (t12 s)"
    using that by (cases "t12 s") (auto simp: hc_k_from_t12)
  then show ?thesis
    using assms by (simp add: hc_k_from_t12 hc_k_from_cl_vd tr)
qed

theorem rate_candidates_witness:
  "t12 default_form \<noteq> NaN \<and> Cl default_form \<noteq> NaN \<and> Vd default_form \<noteq> NaN
   \<and> t12 default_form = Fin 8 \<and> Cl default_form = Fin 4 \<and> Vd default_form = Fin 40
   \<and> is_fin (t12 default_form)
   \<and> k_from_t12 (handleCalculate default_form) = Some (Fin 0.086625)
   \<and> k_from_cl_vd (handleCalculate default_form) = Some (Fin 0.1)"
proof -
  have h: "t12 default_form \<noteq> NaN" "Cl default_form \<noteq> NaN" "Vd default_form \<noteq> NaN"
    by (simp_all add: default_form_def)
  show ?thesis
    using h rate_candidates [OF h] by (simp add: default_form_def)
qed

section \<open>The peak\<close>

lemma js_gt_trans: "js_gt a b \<Longrightarrow> js_gt b d \<Longrightarrow> js_gt a d"
  by (cases a; cases b; cases d) auto

lemma js_gt_not_NaN: "js_gt a b \<Longrightarrow> a \<noteq> NaN \<and> b \<noteq> NaN"
  by (cases a; cases b) auto

lemma js_gt_irrefl: "\<not> js_gt a a"
  by (cases a) auto

lemma js_gt_asym: "js_gt a b \<Longrightarrow> \<not> js_gt b a"
  by (cases a; cases b) auto

lemma js_ge_gt_trans: "js_gt q x \<Longrightarrow> \<not> js_gt q p \<Longrightarrow> p \<noteq> NaN \<Longrightarrow> js_gt p x"
  by (cases q; cases x; cases p) auto

lemma exists_max_above:
  "\<exists>q\<in>set xs. js_gt (c q) a \<Longrightarrow>
   \<exists>p\<in>set xs. js_gt (c p) a \<and> (\<forall>q\<in>set xs. \<not> js_gt (c q) (c p))"
proof (induction xs)
  case Nil
  then show ?case by simp
next
  case (Cons x xs)
  show ?case
  proof (cases "\<exists>q\<in>set xs. js_gt (c q) a")
    case True
    then obtain p where p: "p \<in> set xs" "js_gt (c p) a" "\<forall>q\<in>set xs. \<not> js_gt (c q) (c p)"
      using Cons.IH by blast
    show ?thesis
    proof (cases "js_gt (c x) (c p)")
      case True
      have "js_gt (c x) a" using True p(2) by (rule js_gt_trans)
      moreover have "\<not> js_gt (c q) (c x)" if "q \<in> set xs" for q
        using that p(3) True js_gt_trans by blast
      ultimately show ?thesis using js_gt_irrefl by auto
    next
      case False
      then show ?thesis using p by auto
    qed
  next
    case False
    then have x: "js_gt (c x) a" using Cons.prems by auto
    have "\<not> js_gt (c q) (c x)" if "q \<in> set xs" for q
      using that False x js_gt_trans by blast
    then show ?thesis using x js_gt_irrefl by auto
  qed
qed

lemma peak_foldl:
  "foldl peak_step (m, tm) ps =
     (case find (\<lambda>p. js_gt (c p) m \<and> list_all (\<lambda>q. \<not> js_gt (c q) (c p)) ps) ps of
        Some p \<Rightarrow> (c p, t p)
      | None \<Rightarrow> (m, tm))"
proof (induction ps arbitrary: m tm)
  case Nil
  then show ?case by simp
next
  case (Cons x xs)
  let ?P = "\<lambda>m L p. js_gt (c p) m \<and> list_all (\<lambda>q. \<not> js_gt (c q) (c p)) L"
  show ?case
  proof (cases "js_gt (c x) m")
    case above: True
    have step: "foldl peak_step (m, tm) (x # xs) = foldl peak_step (c x, t x) xs"
      using above by (simp add: peak_step_def)
    show ?thesis
    proof (cases "list_all (\<lambda>q. \<not> js_gt (c q) (c x)) xs")
      case True
      then have "find (?P (c x) xs) xs = None"
        by (auto simp: find_None_iff list_all_iff)
      moreover have "find (?P m (x # xs)) (x # xs) = Some x"
        using above True by (simp add: js_gt_irrefl)
      ultimately show ?thesis
        using Cons.IH [of "c x" "t x"] step by simp
    next
      case False
      then obtain q0 where q0: "q0 \<in> set xs" "js_gt (c q0) (c x)"
        by (auto simp: list_all_iff)
      have eq: "?P m (x # xs) p = ?P (c x) xs p" if "p \<in> set xs" for p :: point
      proof -
        have "js_gt (c p) (c x)" if "js_gt (c p) m" "list_all (\<lambda>q. \<not> js_gt (c q) (c p)) xs"
          using that q0 js_ge_gt_trans [of "c q0" "c x" "c p"] js_gt_not_NaN [of "c p" m]
          by (auto simp: list_all_iff)
        moreover have "js_gt (c p) m \<and> \<not> js_gt (c x) (c p)" if "js_gt (c p) (c x)"
          using that above js_gt_trans js_gt_asym by blast
        ultimately show ?thesis by auto
      qed
      have "find (?P m (x # xs)) (x # xs) = find (?P m (x # xs)) xs"
        using False by simp
      also have "\<dots> = find (?P (c x) xs) xs"
        using eq by (intro find_cong) auto
      finally have f: "find (?P m (x # xs)) (x # xs) = find (?P (c x) xs) xs" .
      have "\<exists>p\<in>set xs. ?P (c x) xs p"
        using exists_max_above [of xs "c x"] q0 by (auto simp: list_all_iff)
      then obtain p where "find (?P (c x) xs) xs = Some p"
        by (cases "find (?P (c x) xs) xs") (auto simp: find_None_iff)
      then show ?thesis
        using Cons.IH [of "c x" "t x"] step f by simp
    qed
  next
    case False
    have step: "foldl peak_step (m, tm) (x # xs) = foldl peak_step (m, tm) xs"
      using False by (simp add: peak_step_def)
    have eq: "?P m (x # xs) p = ?P m xs p" for p :: point
      using False js_gt_trans by auto
    have "find (?P m (x # xs)) (x # xs) = find (?P m (x # xs)) xs"
      using False by simp
    also have "\<dots> = find (?P m xs) xs"
      using eq by (intro find_cong) auto
    finally show ?thesis
      using Cons.IH [of m tm] step by simp
  qed
qed

lemma peak_scan_spec: "peak_scan ps = peak_spec ps"
  by (simp add: peak_scan_def peak_spec_def peak_foldl)

lemma parsePoints_tie: "parsePoints ''5:0,7:0'' = [\<lparr>t = Fin 5, c = Fin 0\<rparr>, \<lparr>t = Fin 7, c = Fin 0\<rparr>]"
  by code_simp

lemma parsePoints_tie_pos:
  "parsePoints ''1:2,3:4,5:4'' = [\<lparr>t = Fin 1, c = Fin 2\<rparr>, \<lparr>t = Fin 3, c = Fin 4\<rparr>, \<lparr>t = Fin 5, c = Fin 4\<rparr>]"
  by code_simp

text \<open>
  C8, as stated, fails. The claim: with tied maxima the reported time of the peak is
  that of the first occurrence. The samples \<open>(5, 0), (7, 0)\<close> tie at the maximum 0,
  first reached at time 5; no concentration is strictly above the initial peak 0, so
  the scan reports the initial pair, peak 0 at time 0.
\<close>

theorem peak_tie_at_zero:
  "map_option t (first_max (points (handleCalculate (default_form\<lparr>pointsCsv := ''5:0,7:0''\<rparr>))))
     = Some (Fin 5)
   \<and> Tmax (handleCalculate (default_form\<lparr>pointsCsv := ''5:0,7:0''\<rparr>)) = Fin 0
   \<and> Cmax (handleCalculate (default_form\<lparr>pointsCsv := ''5:0,7:0''\<rparr>)) = Fin 0"
proof -
  have "peak_scan [\<lparr>t = Fin 5, c = Fin 0\<rparr>, \<lparr>t = Fin 7, c = Fin 0\<rparr>] = (Fin 0, Fin 0)"
    by (simp add: peak_scan_def peak_step_def)
  then show ?thesis
    using hc_peak [of "default_form\<lparr>pointsCsv := ''5:0,7:0''\<rparr>"]
    by (simp add: hc_points parsePoints_tie first_max_def)
qed

lemma js_le_not_gt: "js_le a b \<Longrightarrow> \<not> js_gt a b"
  by (cases a; cases b) auto

lemma js_le_not_NaN: "js_le a b \<Longrightarrow> a \<noteq> NaN"
  by (cases a; cases b) auto

lemma first_max_positive:
  assumes fm: "first_max ps = Some p" and pos: "js_gt (c p) (Fin 0)"
  shows "peak_spec ps = (c p, t p)"
proof -
  let ?R = "\<lambda>p :: point. list_all (\<lambda>q. js_le (c q) (c p)) ps"
  let ?Q = "\<lambda>p :: point. js_gt (c p) (Fin 0) \<and> list_all (\<lambda>q. \<not> js_gt (c q) (c p)) ps"
  obtain i where i: "i < length ps" "?R (ps ! i)" "p = ps ! i" "\<forall>j<i. \<not> ?R (ps ! j)"
    using fm unfolding first_max_def find_Some_iff by blast
  have nn: "c q \<noteq> NaN" if "q \<in> set ps" for q
    using i(2) that js_le_not_NaN by (auto simp: list_all_iff)
  have "?Q (ps ! i)"
    using i(2,3) pos js_le_not_gt by (auto simp: list_all_iff)
  moreover have "\<not> ?Q (ps ! j)" if ji: "j < i" for j
  proof -
    have "j < length ps" using ji i(1) by simp
    then have "c (ps ! j) \<noteq> NaN" using nn by simp
    moreover obtain q where "q \<in> set ps" "\<not> js_le (c q) (c (ps ! j))"
      using i(4) ji by (auto simp: list_all_iff)
    ultimately have "js_gt (c q) (c (ps ! j))"
      using nn [of q] js_le_total by blast
    then show ?thesis
      using \<open>q \<in> set ps\<close> by (auto simp: list_all_iff)
  qed
  ultimately have "find ?Q ps = Some p"
    unfolding find_Some_iff using i(1,3) by blast
  then show ?thesis by (simp add: peak_spec_def)
qed

text \<open>
  C8, amended. The scan reports the first sample whose concentration is strictly
  above 0 and exceeded by no other sample, and peak 0 at time 0 when there is no such
  sample. So when the maximum of the sequence is strictly positive the reported
  peak is its first occurrence, and when no concentration is strictly positive, in
  particular for the empty sequence, the result is peak 0 at time 0.
\<close>

theorem peak_first_positive_max:
  "Cmax (handleCalculate s) = fst (peak_spec (points (handleCalculate s)))
   \<and> Tmax (handleCalculate s) = snd (peak_spec (points (handleCalculate s)))
   \<and> peak_spec [] = (Fin 0, Fin 0)
   \<and> (first_max ps = Some p \<and> js_gt (c p) (Fin 0) \<longrightarrow> peak_spec ps = (c p, t p))
   \<and> (list_all (\<lambda>q. \<not> js_gt (c q) (Fin 0)) qs \<longrightarrow> peak_spec qs = (Fin 0, Fin 0))"
proof -
  have "(Cmax (handleCalculate s), Tmax (handleCalculate s)) = peak_spec (points (handleCalculate s))"
    by (simp add: hc_peak peak_scan_spec)
  then have "Cmax (handleCalculate s) = fst (peak_spec (points (handleCalculate s)))"
    and "Tmax (handleCalculate s) = snd (peak_spec (points (handleCalculate s)))"
    by (metis fst_conv, metis snd_conv)
  moreover have "peak_spec [] = (Fin 0, Fin 0)"
    by (simp add: peak_spec_def)
  moreover have "peak_spec qs = (Fin 0, Fin 0)" if "list_all (\<lambda>q. \<not> js_gt (c q) (Fin 0)) qs"
  proof -
    have "find (\<lambda>p. js_gt (c p) (Fin 0) \<and> list_all (\<lambda>q. \<not> js_gt (c q) (c p)) qs) qs = None"
      using that by (auto simp: find_None_iff list_all_iff)
    then show ?thesis by (simp add: peak_spec_def)
  qed
  ultimately show ?thesis
    using first_max_positive [of ps p] by blast
qed

theorem peak_first_positive_max_witness:
  "first_max [\<lparr>t = Fin 1, c = Fin 2\<rparr>, \<lparr>t = Fin 3, c = Fin 4\<rparr>, \<lparr>t = Fin 5, c = Fin 4\<rparr>]
     = Some \<lparr>t = Fin 3, c = Fin 4\<rparr>
   \<and> js_gt (c \<lparr>t = Fin 3, c = Fin 4\<rparr>) (Fin 0)
   \<and> Cmax (handleCalculate (default_form\<lparr>pointsCsv := ''1:2,3:4,5:4''\<rparr>)) = Fin 4
   \<and> Tmax (handleCalculate (default_form\<lparr>pointsCsv := ''1:2,3:4,5:4''\<rparr>)) = Fin 3
   \<and> list_all (\<lambda>q. \<not> js_gt (c q) (Fin 0)) [\<lparr>t = Fin 5, c = Fin 0\<rparr>, \<lparr>t = Fin 7, c = Fin 0\<rparr>]
   \<and> peak_spec [\<lparr>t = Fin 5, c = Fin 0\<rparr>, \<lparr>t = Fin 7, c = Fin 0\<rparr>] = (Fin 0, Fin 0)"
proof -
  have h: "first_max [\<lparr>t = Fin 1, c = Fin 2\<rparr>, \<lparr>t = Fin 3, c = Fin 4\<rparr>, \<lparr>t = Fin 5, c = Fin 4\<rparr>]
             = Some \<lparr>t = Fin 3, c = Fin 4\<rparr>
           \<and> js_gt (c \<lparr>t = Fin 3, c = Fin 4\<rparr>) (Fin 0)"
    by (simp add: first_max_def)
  show ?thesis
    using h
      peak_first_positive_max [of "default_form\<lparr>pointsCsv := ''1:2,3:4,5:4''\<rparr>"
        "[\<lparr>t = Fin 1, c = Fin 2\<rparr>, \<lparr>t = Fin 3, c = Fin 4\<rparr>, \<lparr>t = Fin 5, c = Fin 4\<rparr>]"
        "\<lparr>t = Fin 3, c = Fin 4\<rparr>" "[\<lparr>t = Fin 5, c = Fin 0\<rparr>, \<lparr>t = Fin 7, c = Fin 0\<rparr>]"]
    by (simp add: hc_points parsePoints_tie_pos)
qed

section \<open>The doses\<close>



section \<open>Inputs that are not used\<close>

text \<open>
  C10. Two forms that agree on \<open>F\<close>, \<open>Vd\<close>, \<open>Cl\<close>, the half-life, \<open>tau\<close>, the target
  concentration and the CSV text give the same result, whatever their dose, route,
  \<open>ka\<close> and drug name.
\<close>

theorem unused_inputs:
  assumes "F s = F s'" "Vd s = Vd s'" "Cl s = Cl s'" "t12 s = t12 s'" "tau s = tau s'"
    "cssTarget s = cssTarget s'" "pointsCsv s = pointsCsv s'"
  shows "handleCalculate s = handleCalculate s'"
  unfolding handleCalculate_def assms by (rule refl)

theorem unused_inputs_witness:
  "handleCalculate (default_form\<lparr>dose := Fin 250, route := IV, ka := Fin 3\<rparr>)
     = handleCalculate default_form
   \<and> default_form\<lparr>dose := Fin 250, route := IV, ka := Fin 3\<rparr> \<noteq> default_form"
proof -
  have "handleCalculate (default_form\<lparr>dose := Fin 250, route := IV, ka := Fin 3\<rparr>)
     = handleCalculate default_form"
    by (rule unused_inputs) simp_all
  moreover have "default_form\<lparr>dose := Fin 250, route := IV, ka := Fin 3\<rparr> \<noteq> default_form"
    by (simp add: default_form_def)
  ultimately show ?thesis by simp
qed

end
